theory Spec2Isabelle
  imports Main "HOL-Library.Word"
begin

section \<open>The IPFS readers of package ipfs (readers.go)\<close>

text \<open>
  The Go file \<^verbatim>\<open>src/go/ipfs/readers.go\<close> consists of helpers that talk to an IPFS
  daemon. Its one function with real control flow is \<^verbatim>\<open>DownloadFromUrlToFile\<close>; it is
  all input and output, so the embedding threads an explicit file system through the
  function, records every call that leaves the function in a list of events, and turns
  every \<^verbatim>\<open>return err\<close> and every run-time panic into a value.
\<close>

subsection \<open>Results of a Go call\<close>

text \<open>A Go call either returns its results or panics.\<close>

datatype 'a completion = Returns 'a | Panics

text \<open>
  The Go code returns untyped \<^verbatim>\<open>error\<close> values. The constructor names the place of the
  \<^verbatim>\<open>return\<close> that produced the error, with the names of the specification:
  line 127 (\<open>DirectoryCreateError\<close>), line 131 (\<open>NotADirectoryError\<close>), lines 146 and 152
  (\<open>FileCreateError\<close>), line 165 (\<open>InvalidProxyURL\<close>), line 177 (\<open>TransportError\<close>),
  lines 185 and 194 (\<open>WriteError\<close>), lines 189 and 198 (\<open>ReadBackError\<close>) and line 206
  (\<open>RemoteTimeoutError\<close>). The value \<open>None\<close> is Go's \<^verbatim>\<open>nil\<close> error.
\<close>

datatype error =
    DirectoryCreateError
  | NotADirectoryError
  | FileCreateError
  | InvalidProxyURL
  | TransportError
  | WriteError
  | ReadBackError
  | RemoteTimeoutError

subsection \<open>Strings: \<^verbatim>\<open>strings.Split\<close> and \<^verbatim>\<open>strings.Join\<close>\<close>

text \<open>
  \<^verbatim>\<open>strings.Split(s, "/")\<close> for a separator of one byte: the pieces between the
  separators, one more piece than there are separators, so never an empty slice.
\<close>

fun strings_Split :: "string \<Rightarrow> char \<Rightarrow> string list" where
  "strings_Split [] sep = [[]]"
| "strings_Split (c # cs) sep =
     (if c = sep then [] # strings_Split cs sep
      else (case strings_Split cs sep of
              [] \<Rightarrow> [[c]]
            | t # ts \<Rightarrow> (c # t) # ts))"

text \<open>\<^verbatim>\<open>strings.Join(elems, sep)\<close>.\<close>

fun strings_Join :: "string list \<Rightarrow> string \<Rightarrow> string" where
  "strings_Join [] sep = []"
| "strings_Join [t] sep = t"
| "strings_Join (t # u # ts) sep = t @ sep @ strings_Join (u # ts) sep"

subsection \<open>Paths: \<^verbatim>\<open>path.Clean\<close> and \<^verbatim>\<open>path.Join\<close>\<close>

text \<open>
  \<^verbatim>\<open>path.Clean\<close> of the Go library, element by element: empty elements and \<^verbatim>\<open>.\<close> are
  dropped, \<^verbatim>\<open>..\<close> removes the element before it, is dropped at the root and is kept at
  the start of a relative path. The elements kept so far are held in reverse.
\<close>

definition clean_step :: "bool \<Rightarrow> string \<Rightarrow> string list \<Rightarrow> string list" where
  "clean_step rooted c kept =
     (if c = [] \<or> c = ''.'' then kept
      else if c = ''..'' then
        (case kept of
           [] \<Rightarrow> (if rooted then [] else [''..''])
         | t # ts \<Rightarrow> (if t = ''..'' then ''..'' # kept else ts))
      else c # kept)"

definition path_Clean :: "string \<Rightarrow> string" where
  "path_Clean p =
     (if p = [] then ''.''
      else
        (let rooted = (hd p = CHR ''/'');
             kept = fold (clean_step rooted) (strings_Split p CHR ''/'') [];
             body = strings_Join (rev kept) ''/''
         in if rooted then CHR ''/'' # body
            else if body = [] then ''.'' else body))"

text \<open>
  \<^verbatim>\<open>path.Join(a, b)\<close>: the elements from the first non-empty one on, joined by a slash
  and cleaned; the empty string when both are empty.
\<close>

definition path_Join :: "string \<Rightarrow> string \<Rightarrow> string" where
  "path_Join a b =
     (if a = [] then (if b = [] then [] else path_Clean b)
      else path_Clean (a @ ''/'' @ b))"

subsection \<open>The file system\<close>

text \<open>
  A file system maps a cleaned path to a directory with its permission bits or to a
  regular file with its contents. The working directory \<^verbatim>\<open>.\<close> and the root \<^verbatim>\<open>/\<close>
  always exist. Symbolic links, ownership and a full disk are outside this model; the
  operations below are the calls of packages \<^verbatim>\<open>os\<close>, \<^verbatim>\<open>io\<close> and \<^verbatim>\<open>ioutil\<close> that the
  function makes, each with the failures the model can produce.
\<close>

datatype node = Dir nat | File string

type_synonym filesystem = "string \<Rightarrow> node option"

fun IsDir :: "node \<Rightarrow> bool" where
  "IsDir (Dir m) = True"
| "IsDir (File b) = False"

definition lookup_node :: "filesystem \<Rightarrow> string \<Rightarrow> node option" where
  "lookup_node fs q =
     (if q = ''.'' \<or> q = ''/'' then Some (Dir 493) else fs q)"

text \<open>\<^verbatim>\<open>os.Stat(name)\<close>: \<open>None\<close> is a non-nil error with a nil \<^verbatim>\<open>FileInfo\<close>.\<close>

definition os_Stat :: "filesystem \<Rightarrow> string \<Rightarrow> node option" where
  "os_Stat fs name = (if name = [] then None else lookup_node fs (path_Clean name))"

text \<open>The directory that holds a cleaned path.\<close>

definition parent_dir :: "string \<Rightarrow> string" where
  "parent_dir q =
     (let ts = strings_Split q CHR ''/''
      in if length ts \<le> 1 then ''.''
         else (let d = strings_Join (butlast ts) ''/'' in if d = [] then ''/'' else d))"

text \<open>The path itself and the directories above it, outermost first.\<close>

fun ancestors_from :: "string \<Rightarrow> string list \<Rightarrow> string list" where
  "ancestors_from pre [] = []"
| "ancestors_from pre (c # cs) = (pre @ c) # ancestors_from (pre @ c @ ''/'') cs"

definition ancestors :: "string \<Rightarrow> string list" where
  "ancestors q =
     (if q \<noteq> [] \<and> hd q = CHR ''/''
      then ancestors_from ''/'' (strings_Split (tl q) CHR ''/'')
      else ancestors_from [] (strings_Split q CHR ''/''))"

text \<open>
  \<^verbatim>\<open>os.MkdirAll(path, perm)\<close>: every missing directory on the way is made with the
  permission bits \<open>perm\<close>; a regular file on the way is the error. The flag is True
  when the error is nil. Directories made before a failure stay.
\<close>

fun mkdir_chain :: "filesystem \<Rightarrow> string list \<Rightarrow> nat \<Rightarrow> filesystem \<times> bool" where
  "mkdir_chain fs [] perm = (fs, True)"
| "mkdir_chain fs (d # ds) perm =
     (case lookup_node fs d of
        None \<Rightarrow> mkdir_chain (fs(d \<mapsto> Dir perm)) ds perm
      | Some n \<Rightarrow> (if IsDir n then mkdir_chain fs ds perm else (fs, False)))"

definition os_MkdirAll :: "filesystem \<Rightarrow> string \<Rightarrow> nat \<Rightarrow> filesystem \<times> bool" where
  "os_MkdirAll fs name perm = mkdir_chain fs (ancestors (path_Clean name)) perm"

text \<open>
  \<^verbatim>\<open>os.Create(name)\<close> opens with \<^verbatim>\<open>O_RDWR|O_CREATE|O_TRUNC\<close>: the file is made, or
  emptied when it is there. It fails on the empty name, on a directory and when the
  directory that should hold the file is missing. The handle returned is the cleaned
  path, positioned at the start of the empty file.
\<close>

definition os_Create :: "filesystem \<Rightarrow> string \<Rightarrow> (filesystem \<times> string) option" where
  "os_Create fs name =
     (if name = [] then None
      else
        (let q = path_Clean name in
         case lookup_node fs q of
           Some (Dir m) \<Rightarrow> None
         | _ \<Rightarrow>
           (case lookup_node fs (parent_dir q) of
              Some (Dir m) \<Rightarrow> Some (fs(q \<mapsto> File []), q)
            | _ \<Rightarrow> None)))"

text \<open>
  An HTTP response as the function sees it: the bytes that the body delivers, and
  whether the body then ends normally (True) or with a read error (False).
\<close>

datatype response = Response (body: string) (complete: bool)

text \<open>
  \<^verbatim>\<open>io.Copy(dst, src)\<close> appends what the body delivers to the file behind the handle;
  the flag is True when the error is nil. Bytes written before a failure stay.
\<close>

definition io_Copy :: "filesystem \<Rightarrow> string \<Rightarrow> response \<Rightarrow> filesystem \<times> bool" where
  "io_Copy fs h r =
     (case fs h of
        Some (File old) \<Rightarrow> (fs(h \<mapsto> File (old @ body r)), complete r)
      | _ \<Rightarrow> (fs, False))"

text \<open>\<^verbatim>\<open>ioutil.ReadFile(name)\<close>.\<close>

definition ioutil_ReadFile :: "filesystem \<Rightarrow> string \<Rightarrow> string option" where
  "ioutil_ReadFile fs name =
     (case os_Stat fs name of
        Some (File b) \<Rightarrow> Some b
      | _ \<Rightarrow> None)"

subsection \<open>The HTTP transport\<close>

text \<open>
  A parsed URL, and the two fields of \<^verbatim>\<open>http.Transport\<close> that the function sets: a Go
  struct literal leaves every field it does not name at its zero value, which is
  \<open>None\<close> here. \<open>Proxy = Some u\<close> is \<^verbatim>\<open>http.ProxyURL(u)\<close>, the function that answers
  \<open>u\<close> for every request. \<open>dialTimeout\<close> (lines 215 to 219) dials with
  \<^verbatim>\<open>net.DialTimeout\<close> and the package variable \<^verbatim>\<open>timeout\<close> of ten seconds.
\<close>

datatype URL = URL string

datatype dialer = dialTimeout

definition timeout_seconds :: nat where
  "timeout_seconds = 10"

record Transport =
  Proxy :: "URL option"
  Dial :: "dialer option"

text \<open>
  What the function cannot decide by itself comes from the environment: the URL parser
  of \<^verbatim>\<open>net/url\<close> (\<open>None\<close> is a parse error) and the answer of the network to
  \<^verbatim>\<open>client.Get\<close> with a given transport (\<open>None\<close> is a non-nil error).
\<close>

record env =
  url_Parse :: "string \<Rightarrow> URL option"
  client_Get :: "Transport \<Rightarrow> string \<Rightarrow> response option"

text \<open>The calls that leave the function, in the order in which they are made.\<close>

datatype event =
    EvStat string
  | EvMkdirAll string nat
  | EvCreate string
  | EvParse string
  | EvGet Transport string
  | EvCopy string
  | EvReadFile string

record run =
  result :: "error option completion"
  files :: filesystem
  events :: "event list"

subsection \<open>\<^verbatim>\<open>DownloadFromUrlToFile\<close> (lines 109 to 210)\<close>

definition sentinel :: string where
  "sentinel = ''Path Resolve error: context deadline exceeded''"

text \<open>Lines 110 to 113: the file name defaults to the last token of the URL.\<close>

definition resolve_fileName :: "string \<Rightarrow> string \<Rightarrow> string" where
  "resolve_fileName url0 fileName =
     (let tokens = strings_Split url0 CHR ''/''
      in if fileName = [] then tokens ! (length tokens - 1) else fileName)"

text \<open>
  The words of the specification for the same name: the substring of the URL after
  its last separator (all of it when there is none).
\<close>

definition after_last :: "char \<Rightarrow> string \<Rightarrow> string" where
  "after_last c s = rev (takeWhile (\<lambda>x. x \<noteq> c) (rev s))"

text \<open>
  Lines 143 to 155 and 182 to 200: the path that is created, written and read back is
  \<open>endPath\<close> when \<open>dirName\<close> is given and \<open>fileName\<close> otherwise.
\<close>

definition destination :: "string \<Rightarrow> string \<Rightarrow> string" where
  "destination dirName fileName =
     (if dirName \<noteq> [] then path_Join dirName fileName else fileName)"

text \<open>
  Lines 117 to 138. \<open>checkDir\<close> is what \<^verbatim>\<open>os.Stat\<close> returned, nil when it failed. After
  the block that makes the directory, line 130 calls \<^verbatim>\<open>checkDir.IsDir()\<close> whatever
  \<^verbatim>\<open>os.Stat\<close> said: on a nil \<^verbatim>\<open>FileInfo\<close> that call is a nil dereference, a panic.
  The first component is \<open>None\<close> when the function goes on.
\<close>

definition directory_step ::
  "filesystem \<Rightarrow> string \<Rightarrow> error option completion option \<times> filesystem \<times> event list" where
  "directory_step fs dirName =
     (if dirName \<noteq> [] then
        (let checkDir = os_Stat fs dirName;
             (fs1, err1, ev1) =
               (if checkDir = None
                then (let (fs', ok) = os_MkdirAll fs dirName 448
                      in (fs', \<not> ok, [EvStat dirName, EvMkdirAll dirName 448]))
                else (fs, False, [EvStat dirName]))
         in if err1 then (Some (Returns (Some DirectoryCreateError)), fs1, ev1)
            else (case checkDir of
                    None \<Rightarrow> (Some Panics, fs1, ev1)
                  | Some info \<Rightarrow>
                      (if \<not> IsDir info then (Some (Returns (Some NotADirectoryError)), fs1, ev1)
                       else (None, fs1, ev1))))
      else (None, fs, []))"

text \<open>
  Lines 157 to 168. The transport of line 157 carries \<open>dialTimeout\<close>; both branches of
  the \<^verbatim>\<open>if\<close> assign a new struct literal to the same variable.
\<close>

definition build_transport :: "env \<Rightarrow> string \<Rightarrow> (error + Transport) \<times> event list" where
  "build_transport e proxyURL =
     (let transport = \<lparr>Proxy = None, Dial = Some dialTimeout\<rparr>
      in if proxyURL = [] then (Inr \<lparr>Proxy = None, Dial = None\<rparr>, [])
         else (case url_Parse e proxyURL of
                 None \<Rightarrow> (Inl InvalidProxyURL, [EvParse proxyURL])
               | Some urlProxy \<Rightarrow> (Inr \<lparr>Proxy = Some urlProxy, Dial = None\<rparr>, [EvParse proxyURL])))"

text \<open>Lines 175 to 209: the request, the copy, the read-back and the comparison.\<close>

definition transfer_step ::
  "env \<Rightarrow> filesystem \<Rightarrow> Transport \<Rightarrow> string \<Rightarrow> string \<Rightarrow> string \<Rightarrow> run" where
  "transfer_step e fs transport url0 h dest =
     (case client_Get e transport url0 of
        None \<Rightarrow> \<lparr>result = Returns (Some TransportError), files = fs,
                 events = [EvGet transport url0]\<rparr>
      | Some resp \<Rightarrow>
          (let (fs1, ok) = io_Copy fs h resp
           in if \<not> ok
              then \<lparr>result = Returns (Some WriteError), files = fs1,
                    events = [EvGet transport url0, EvCopy h]\<rparr>
              else (case ioutil_ReadFile fs1 dest of
                      None \<Rightarrow> \<lparr>result = Returns (Some ReadBackError), files = fs1,
                               events = [EvGet transport url0, EvCopy h, EvReadFile dest]\<rparr>
                    | Some checkBody \<Rightarrow>
                        \<lparr>result = (if checkBody = sentinel
                                   then Returns (Some RemoteTimeoutError)
                                   else Returns None),
                         files = fs1,
                         events = [EvGet transport url0, EvCopy h, EvReadFile dest]\<rparr>)))"

definition DownloadFromUrlToFile ::
  "env \<Rightarrow> filesystem \<Rightarrow> string \<Rightarrow> string \<Rightarrow> string \<Rightarrow> string \<Rightarrow> run" where
  "DownloadFromUrlToFile e fs url0 fileName0 dirName proxyURL =
     (let fileName = resolve_fileName url0 fileName0;
          dest = destination dirName fileName
      in case directory_step fs dirName of
           (Some stop, fs1, ev1) \<Rightarrow> \<lparr>result = stop, files = fs1, events = ev1\<rparr>
         | (None, fs1, ev1) \<Rightarrow>
             (case os_Create fs1 dest of
                None \<Rightarrow> \<lparr>result = Returns (Some FileCreateError), files = fs1,
                         events = ev1 @ [EvCreate dest]\<rparr>
              | Some (fs2, h) \<Rightarrow>
                  (case build_transport e proxyURL of
                     (Inl err, ev2) \<Rightarrow> \<lparr>result = Returns (Some err), files = fs2,
                                        events = ev1 @ [EvCreate dest] @ ev2\<rparr>
                   | (Inr transport, ev2) \<Rightarrow>
                       (let r = transfer_step e fs2 transport url0 h dest
                        in r\<lparr>events := ev1 @ [EvCreate dest] @ ev2 @ events r\<rparr>))))"

text \<open>
  The call gets past line 155: the directory block lets it through and \<^verbatim>\<open>os.Create\<close>
  succeeds on the destination.
\<close>

definition file_created :: "filesystem \<Rightarrow> string \<Rightarrow> string \<Rightarrow> string \<Rightarrow> bool" where
  "file_created fs url0 fileName dirName =
     (case directory_step fs dirName of
        (None, fs1, ev1) \<Rightarrow>
          os_Create fs1 (destination dirName (resolve_fileName url0 fileName)) \<noteq> None
      | (Some stop, fs1, ev1) \<Rightarrow> False)"

text \<open>\<^verbatim>\<open>GetFromIPFS\<close> (lines 20 to 27) downloads from the gateway with no proxy.\<close>

definition GetFromIPFS :: "env \<Rightarrow> string \<Rightarrow> filesystem \<Rightarrow> string \<Rightarrow> string \<Rightarrow> string \<Rightarrow> run" where
  "GetFromIPFS e gateway fs hash fileName dirName =
     DownloadFromUrlToFile e fs (gateway @ hash) fileName dirName []"

subsection \<open>\<^verbatim>\<open>ListFromIPFS\<close> (lines 43 to 74)\<close>

record LsLink =
  Name :: string
  Hash :: string
  Size :: "64 word"

record LsObject =
  Hash :: string
  Links :: "LsLink list"

text \<open>
  \<^verbatim>\<open>IPFSBaseAPIUrl\<close> and \<^verbatim>\<open>PostAPICall\<close> belong to other files of the package and the
  JSON decoder to the Go library: they are parameters. \<^verbatim>\<open>PostAPICall\<close> answers a body
  and whether its error is non-nil; \<^verbatim>\<open>json_Decode\<close> answers the \<^verbatim>\<open>Objects\<close> field of
  the decoded struct, or \<open>None\<close> for a decoding error.
\<close>

record api =
  IPFSBaseAPIUrl :: string
  PostAPICall :: "string \<Rightarrow> string \<Rightarrow> string \<times> bool"
  json_Decode :: "string \<Rightarrow> LsObject list option"

datatype api_error = DecodeError

text \<open>
  The error of \<^verbatim>\<open>PostAPICall\<close> is overwritten by the error of the decoder at line 62
  before it is looked at. Line 66 indexes \<^verbatim>\<open>out.Objects[0]\<close>: on an empty slice that
  is an index out of range, a panic.
\<close>

definition ListFromIPFS :: "api \<Rightarrow> string \<Rightarrow> (string \<times> api_error option) completion" where
  "ListFromIPFS a objectHash =
     (let url = IPFSBaseAPIUrl a @ ''ls?arg='' @ objectHash;
          (body, err) = PostAPICall a url objectHash
      in case json_Decode a body of
           None \<Rightarrow> Returns ([], Some DecodeError)
         | Some Objects \<Rightarrow>
             (if 0 < length Objects
              then (let contents = Links (Objects ! 0);
                        res = map (\<lambda>c. LsLink.Hash c @ '' '' @ Name c) contents
                    in Returns (strings_Join res [CHR 0x0A], None))
              else Panics))"

subsection \<open>Concrete surroundings for the examples\<close>

text \<open>
  A URL parser that rejects a string with a space, as \<^verbatim>\<open>net/url\<close> rejects a space in a
  host name, and a network that knows one gateway URL, answers the sentinel text for a
  second one and fails for every other.
\<close>

definition example_env :: env where
  "example_env =
     \<lparr>url_Parse = (\<lambda>s. if CHR '' '' \<in> set s then None else Some (URL s)),
      client_Get = (\<lambda>t u.
         if u = ''http://gw.example/ipfs/Qm123'' then Some (Response ''hello world'' True)
         else if u = ''http://gw.example/ipfs/Qm999'' then Some (Response sentinel True)
         else None)\<rparr>"

text \<open>A file system with one regular file \<^verbatim>\<open>notes\<close> and one directory \<^verbatim>\<open>data\<close>.\<close>

definition example_fs :: filesystem where
  "example_fs = [''notes'' \<mapsto> File ''old contents'', ''data'' \<mapsto> Dir 493]"

text \<open>A daemon that answers an object list without objects.\<close>

definition example_body :: string where
  \<open>example_body = ''{"Objects": []}''\<close>

definition example_api :: api where
  "example_api =
     \<lparr>IPFSBaseAPIUrl = ''http://localhost:5001/api/v0/'',
      PostAPICall = (\<lambda>url arg. (example_body, False)),
      json_Decode = (\<lambda>b. if b = example_body then Some [] else None)\<rparr>"

section \<open>Properties\<close>

subsection \<open>Splitting at the separator\<close>

lemma strings_Split_not_Nil: "strings_Split s c \<noteq> []"
  by (induction s) (auto split: list.splits)

lemma strings_Split_no_sep: "c \<notin> set s \<Longrightarrow> strings_Split s c = [s]"
  by (induction s) auto

lemma strings_Split_sep: "c \<in> set s \<Longrightarrow> \<exists>t u ts. strings_Split s c = t # u # ts"
proof (induction s)
  case Nil
  then show ?case by simp
next
  case (Cons x s)
  show ?case
  proof (cases "x = c")
    case True
    obtain u ts where "strings_Split s c = u # ts"
      using strings_Split_not_Nil [of s c] by (cases "strings_Split s c") auto
    with True show ?thesis by simp
  next
    case False
    with Cons.prems have "c \<in> set s" by simp
    from Cons.IH [OF this] obtain t u ts where "strings_Split s c = t # u # ts" by blast
    with False show ?thesis by simp
  qed
qed

lemma last_strings_Split: "last (strings_Split s c) = after_last c s"
proof (induction s)
  case Nil
  show ?case by (simp add: after_last_def)
next
  case (Cons x s)
  show ?case
  proof (cases "x = c")
    case True
    then show ?thesis
      using Cons.IH strings_Split_not_Nil [of s c]
      by (simp add: after_last_def takeWhile_append)
  next
    case False
    show ?thesis
    proof (cases "c \<in> set s")
      case True
      from strings_Split_sep [OF this] obtain t u ts where
        sp: "strings_Split s c = t # u # ts" by blast
      from True have ne: "\<not> (\<forall>y\<in>set s. y \<noteq> c)" by auto
      show ?thesis
        using Cons.IH sp False True by (auto simp: after_last_def takeWhile_append)
    next
      case notin: False
      then show ?thesis
        using False strings_Split_no_sep [OF notin]
        by (simp add: after_last_def takeWhile_append)
    qed
  qed
qed

lemma after_last_append: "c \<notin> set seg \<Longrightarrow> after_last c (pre @ c # seg) = seg"
  by (simp add: after_last_def takeWhile_append)

lemma resolve_fileName_empty: "resolve_fileName url0 [] = after_last CHR ''/'' url0"
proof -
  let ?tokens = "strings_Split url0 CHR ''/''"
  have "?tokens ! (length ?tokens - 1) = last ?tokens"
    using strings_Split_not_Nil [of url0 "CHR ''/''"] by (simp add: last_conv_nth)
  then show ?thesis
    by (simp add: resolve_fileName_def Let_def last_strings_Split)
qed

subsection \<open>The shape of a run\<close>

text \<open>
  A run stops in the directory block, at the creation of the file, at the parsing of
  the proxy URL, or goes on to the request.
\<close>

lemma directory_step_events:
  "directory_step fs d = (x, fs1, ev1) \<Longrightarrow> set ev1 \<subseteq> {EvStat d, EvMkdirAll d 448}"
  by (auto simp: directory_step_def Let_def split: if_splits prod.splits option.splits)

lemma build_transport_events:
  "build_transport e p = (x, ev2) \<Longrightarrow> set ev2 \<subseteq> {EvParse p}"
  by (auto simp: build_transport_def Let_def split: if_splits option.splits)

lemma transfer_step_events:
  "set (events (transfer_step e fs t u h d)) \<subseteq> {EvGet t u, EvCopy h, EvReadFile d}"
  by (auto simp: transfer_step_def Let_def split: if_splits prod.splits option.splits)

lemma os_Create_Some:
  assumes "os_Create fs name = Some (fs2, h)"
  shows "name \<noteq> []" and "h = path_Clean name" and "fs2 = fs(h \<mapsto> File [])"
    and "h \<noteq> ''.''" and "h \<noteq> ''/''"
  using assms
  by (auto simp: os_Create_def Let_def lookup_node_def split: if_splits option.splits node.splits)

lemma read_after_write:
  assumes "name \<noteq> []" and "path_Clean name \<noteq> ''.''" and "path_Clean name \<noteq> ''/''"
  shows "ioutil_ReadFile (fs(path_Clean name \<mapsto> File b)) name = Some b"
  using assms by (simp add: ioutil_ReadFile_def os_Stat_def lookup_node_def)

lemma run_cases:
  fixes e fs url0 fileName dirName proxyURL
  defines "r \<equiv> DownloadFromUrlToFile e fs url0 fileName dirName proxyURL"
    and "dest \<equiv> destination dirName (resolve_fileName url0 fileName)"
  obtains
    (stopped) stop fs1 ev1 where
      "directory_step fs dirName = (Some stop, fs1, ev1)"
      "r = \<lparr>result = stop, files = fs1, events = ev1\<rparr>"
  | (nocreate) fs1 ev1 where
      "directory_step fs dirName = (None, fs1, ev1)"
      "os_Create fs1 dest = None"
      "r = \<lparr>result = Returns (Some FileCreateError), files = fs1, events = ev1 @ [EvCreate dest]\<rparr>"
  | (noproxy) fs1 ev1 fs2 h err ev2 where
      "directory_step fs dirName = (None, fs1, ev1)"
      "os_Create fs1 dest = Some (fs2, h)"
      "build_transport e proxyURL = (Inl err, ev2)"
      "r = \<lparr>result = Returns (Some err), files = fs2, events = ev1 @ [EvCreate dest] @ ev2\<rparr>"
  | (transfer) fs1 ev1 fs2 h transport ev2 where
      "directory_step fs dirName = (None, fs1, ev1)"
      "os_Create fs1 dest = Some (fs2, h)"
      "build_transport e proxyURL = (Inr transport, ev2)"
      "r = (transfer_step e fs2 transport url0 h dest)
             \<lparr>events := ev1 @ [EvCreate dest] @ ev2 @ events (transfer_step e fs2 transport url0 h dest)\<rparr>"
proof -
  obtain x fs1 ev1 where ds: "directory_step fs dirName = (x, fs1, ev1)"
    by (cases "directory_step fs dirName") auto
  show thesis
  proof (cases x)
    case (Some stop)
    with ds show thesis
      by (intro stopped [of stop fs1 ev1]) (simp_all add: r_def DownloadFromUrlToFile_def)
  next
    case None
    note dsN = ds [unfolded None]
    show thesis
    proof (cases "os_Create fs1 dest")
      case None
      with dsN show thesis
        by (intro nocreate [of fs1 ev1])
          (simp_all add: r_def dest_def DownloadFromUrlToFile_def Let_def)
    next
      case (Some c)
      obtain fs2 h where c: "c = (fs2, h)" by (cases c) auto
      obtain y ev2 where bt: "build_transport e proxyURL = (y, ev2)"
        by (cases "build_transport e proxyURL") auto
      show thesis
      proof (cases y)
        case (Inl err)
        with dsN Some c bt show thesis
          by (intro noproxy [of fs1 ev1 fs2 h err ev2])
            (simp_all add: r_def dest_def DownloadFromUrlToFile_def Let_def)
      next
        case (Inr transport)
        with dsN Some c bt show thesis
          by (intro transfer [of fs1 ev1 fs2 h transport ev2])
            (simp_all add: r_def dest_def DownloadFromUrlToFile_def Let_def)
      qed
    qed
  qed
qed

lemma transfer_complete:
  assumes cr: "os_Create fs1 dest = Some (fs2, h)"
    and get: "client_Get e t url0 = Some resp" and ok: "complete resp"
  shows "transfer_step e fs2 t url0 h dest =
           \<lparr>result = (if body resp = sentinel then Returns (Some RemoteTimeoutError)
                       else Returns None),
            files = fs1(h \<mapsto> File (body resp)),
            events = [EvGet t url0, EvCopy h, EvReadFile dest]\<rparr>"
    and "ioutil_ReadFile (fs1(h \<mapsto> File (body resp))) dest = Some (body resp)"
proof -
  note c = os_Create_Some [OF cr]
  have copy: "io_Copy fs2 h resp = (fs1(h \<mapsto> File (body resp)), True)"
    using c(3) ok by (simp add: io_Copy_def)
  show rd: "ioutil_ReadFile (fs1(h \<mapsto> File (body resp))) dest = Some (body resp)"
    using read_after_write [of dest fs1 "body resp"] c by simp
  show "transfer_step e fs2 t url0 h dest =
           \<lparr>result = (if body resp = sentinel then Returns (Some RemoteTimeoutError)
                       else Returns None),
            files = fs1(h \<mapsto> File (body resp)),
            events = [EvGet t url0, EvCopy h, EvReadFile dest]\<rparr>"
    by (simp add: transfer_step_def get copy rd)
qed

lemma get_event_transfer:
  fixes e fs url0 fileName dirName proxyURL
  defines "r \<equiv> DownloadFromUrlToFile e fs url0 fileName dirName proxyURL"
    and "dest \<equiv> destination dirName (resolve_fileName url0 fileName)"
  assumes ev: "EvGet t u \<in> set (events r)"
  obtains fs1 ev1 fs2 h ev2 where
      "directory_step fs dirName = (None, fs1, ev1)"
      "os_Create fs1 dest = Some (fs2, h)"
      "build_transport e proxyURL = (Inr t, ev2)"
      "u = url0"
      "r = (transfer_step e fs2 t url0 h dest)
             \<lparr>events := ev1 @ [EvCreate dest] @ ev2 @ events (transfer_step e fs2 t url0 h dest)\<rparr>"
proof (cases rule: run_cases [where e=e and fs=fs and ?url0.0=url0 and fileName=fileName and dirName=dirName and proxyURL=proxyURL])
  case (stopped stop fs1 ev1)
  with ev directory_step_events [OF stopped(1)] show thesis
    by (auto simp: r_def)
next
  case (nocreate fs1 ev1)
  with ev directory_step_events [OF nocreate(1)] show thesis
    by (auto simp: r_def dest_def)
next
  case (noproxy fs1 ev1 fs2 h err ev2)
  with ev directory_step_events [OF noproxy(1)] build_transport_events [OF noproxy(3)]
  show thesis by (auto simp: r_def dest_def)
next
  case (transfer fs1 ev1 fs2 h transport ev2)
  from ev directory_step_events [OF transfer(1)] build_transport_events [OF transfer(3)]
    transfer_step_events [of e fs2 transport url0 h "destination dirName (resolve_fileName url0 fileName)"]
  have "t = transport \<and> u = url0"
    by (auto simp: r_def transfer(4))
  with transfer that show thesis by (simp add: r_def dest_def)
qed

lemma directory_step_result:
  "directory_step fs d = (Some stop, fs1, ev1) \<Longrightarrow>
     stop = Returns (Some DirectoryCreateError) \<or> stop = Panics
     \<or> stop = Returns (Some NotADirectoryError)"
  by (auto simp: directory_step_def Let_def split: if_splits prod.splits option.splits)

lemma build_transport_unparsable:
  "proxyURL \<noteq> [] \<Longrightarrow> url_Parse e proxyURL = None \<Longrightarrow>
     build_transport e proxyURL = (Inl InvalidProxyURL, [EvParse proxyURL])"
  by (simp add: build_transport_def)

lemma build_transport_proxy:
  "proxyURL \<noteq> [] \<Longrightarrow> url_Parse e proxyURL = Some u \<Longrightarrow>
     build_transport e proxyURL = (Inr \<lparr>Proxy = Some u, Dial = None\<rparr>, [EvParse proxyURL])"
  by (simp add: build_transport_def)

lemma build_transport_direct:
  "build_transport e [] = (Inr \<lparr>Proxy = None, Dial = None\<rparr>, [])"
  by (simp add: build_transport_def)

lemma build_transport_error:
  "build_transport e p = (Inl err, ev2) \<Longrightarrow> err = InvalidProxyURL"
  by (auto simp: build_transport_def Let_def split: if_splits option.splits)

lemma transfer_step_get_first:
  "\<exists>evs. events (transfer_step e fs t u h d) = EvGet t u # evs"
  by (auto simp: transfer_step_def Let_def split: if_splits prod.splits option.splits)

lemma transfer_step_TransportError:
  "result (transfer_step e fs t u h d) = Returns (Some TransportError) \<Longrightarrow>
     files (transfer_step e fs t u h d) = fs"
  by (auto simp: transfer_step_def Let_def split: if_splits prod.splits option.splits)

lemma transfer_step_not_InvalidProxyURL:
  "result (transfer_step e fs t u h d) \<noteq> Returns (Some InvalidProxyURL)"
  by (auto simp: transfer_step_def Let_def split: if_splits prod.splits option.splits)

lemma before_create:
  "x \<notin> set ev1 \<Longrightarrow> x \<noteq> c \<Longrightarrow> ev1 @ c # rest = xs @ x # ys \<Longrightarrow> c \<in> set xs"
proof (induction ev1 arbitrary: xs)
  case Nil
  then show ?case by (cases xs) auto
next
  case (Cons a ev1)
  then show ?case by (cases xs) auto
qed

lemma file_created_cases:
  assumes "file_created fs url0 fileName dirName"
  obtains fs1 ev1 fs2 h where
    "directory_step fs dirName = (None, fs1, ev1)"
    "os_Create fs1 (destination dirName (resolve_fileName url0 fileName)) = Some (fs2, h)"
  using assms by (auto simp: file_created_def split: prod.splits option.splits)

lemma create_precedes:
  assumes ev: "events (DownloadFromUrlToFile e fs url0 fileName dirName proxyURL) = xs @ x # ys"
    and x: "(\<exists>p. x = EvParse p) \<or> (\<exists>t u. x = EvGet t u)"
  shows "EvCreate (destination dirName (resolve_fileName url0 fileName)) \<in> set xs"
proof (cases rule: run_cases [where e=e and fs=fs and ?url0.0=url0 and fileName=fileName
        and dirName=dirName and proxyURL=proxyURL])
  case (stopped stop fs1 ev1)
  from ev have "x \<in> set (events (DownloadFromUrlToFile e fs url0 fileName dirName proxyURL))"
    by simp
  with x directory_step_events [OF stopped(1)] show ?thesis by (auto simp: stopped(2))
next
  case (nocreate fs1 ev1)
  from ev have "x \<in> set (events (DownloadFromUrlToFile e fs url0 fileName dirName proxyURL))"
    by simp
  with x directory_step_events [OF nocreate(1)] show ?thesis by (auto simp: nocreate(3))
next
  case (noproxy fs1 ev1 fs2 h err ev2)
  from x directory_step_events [OF noproxy(1)] have "x \<notin> set ev1" by auto
  moreover from x have "x \<noteq> EvCreate (destination dirName (resolve_fileName url0 fileName))"
    by auto
  moreover from ev have
    "ev1 @ EvCreate (destination dirName (resolve_fileName url0 fileName)) # ev2 = xs @ x # ys"
    by (simp add: noproxy(4))
  ultimately show ?thesis by (rule before_create)
next
  case (transfer fs1 ev1 fs2 h transport ev2)
  let ?dest = "destination dirName (resolve_fileName url0 fileName)"
  let ?ts = "transfer_step e fs2 transport url0 h ?dest"
  from x directory_step_events [OF transfer(1)] have "x \<notin> set ev1" by auto
  moreover from x have "x \<noteq> EvCreate ?dest" by auto
  moreover from ev have "ev1 @ EvCreate ?dest # (ev2 @ events ?ts) = xs @ x # ys"
    by (simp add: transfer(4))
  ultimately show ?thesis by (rule before_create)
qed

lemma empty_after_failure:
  assumes "result (DownloadFromUrlToFile e fs url0 fileName dirName proxyURL) = Returns (Some InvalidProxyURL)
         \<or> result (DownloadFromUrlToFile e fs url0 fileName dirName proxyURL) = Returns (Some TransportError)"
  shows "ioutil_ReadFile (files (DownloadFromUrlToFile e fs url0 fileName dirName proxyURL))
           (destination dirName (resolve_fileName url0 fileName)) = Some []"
proof (cases rule: run_cases [where e=e and fs=fs and ?url0.0=url0 and fileName=fileName
        and dirName=dirName and proxyURL=proxyURL])
  case (stopped stop fs1 ev1)
  with assms directory_step_result [OF stopped(1)] show ?thesis by auto
next
  case (nocreate fs1 ev1)
  with assms show ?thesis by auto
next
  case (noproxy fs1 ev1 fs2 h err ev2)
  note c = os_Create_Some [OF noproxy(2)]
  show ?thesis
    using read_after_write [of "destination dirName (resolve_fileName url0 fileName)" fs1 "[]"] c
    by (simp add: noproxy(4))
next
  case (transfer fs1 ev1 fs2 h transport ev2)
  let ?dest = "destination dirName (resolve_fileName url0 fileName)"
  let ?ts = "transfer_step e fs2 transport url0 h ?dest"
  note c = os_Create_Some [OF transfer(2)]
  from assms have "result ?ts = Returns (Some TransportError)"
    using transfer_step_not_InvalidProxyURL [of e fs2 transport url0 h ?dest]
    by (simp add: transfer(4))
  then have "files ?ts = fs2" by (rule transfer_step_TransportError)
  then show ?thesis
    using read_after_write [of ?dest fs1 "[]"] c by (simp add: transfer(4))
qed

subsection \<open>The file name taken from the URL\<close>

lemma directory_step_empty: "directory_step fs [] = (None, fs, [])"
  by (simp add: directory_step_def)

lemma parent_dir_no_sep: "CHR ''/'' \<notin> set seg \<Longrightarrow> parent_dir seg = ''.''"
  by (simp add: parent_dir_def strings_Split_no_sep)

text \<open>
  Claim C7. With an empty \<open>fileName\<close> the name used is the substring of the URL after
  its last slash. In particular, for a URL that ends in a slash followed by a segment
  \<open>seg\<close> without a slash, the name is \<open>seg\<close>; with an empty \<open>dirName\<close> the destination
  is \<open>seg\<close> alone, a path held by the working directory, and it is the first thing that
  the function touches: its first call is \<^verbatim>\<open>os.Create(seg)\<close>.
\<close>

theorem fileName_from_url:
  "resolve_fileName url0 [] = after_last CHR ''/'' url0 \<and>
   (CHR ''/'' \<notin> set seg \<longrightarrow>
      resolve_fileName (pre @ ''/'' @ seg) [] = seg \<and>
      destination [] (resolve_fileName (pre @ ''/'' @ seg) []) = seg \<and>
      parent_dir seg = ''.'' \<and>
      hd (events (DownloadFromUrlToFile e fs (pre @ ''/'' @ seg) [] [] proxyURL)) = EvCreate seg)"
proof (intro conjI impI)
  show "resolve_fileName url0 [] = after_last CHR ''/'' url0"
    by (rule resolve_fileName_empty)
next
  assume seg: "CHR ''/'' \<notin> set seg"
  then show name: "resolve_fileName (pre @ ''/'' @ seg) [] = seg"
    by (simp add: resolve_fileName_empty after_last_append)
  then show "destination [] (resolve_fileName (pre @ ''/'' @ seg) []) = seg"
    by (simp add: destination_def)
  from seg show "parent_dir seg = ''.''"
    by (rule parent_dir_no_sep)
  from name have dest: "destination [] (resolve_fileName (pre @ ''/'' @ seg) []) = seg"
    by (simp add: destination_def)
  show "hd (events (DownloadFromUrlToFile e fs (pre @ ''/'' @ seg) [] [] proxyURL)) = EvCreate seg"
    unfolding DownloadFromUrlToFile_def Let_def dest directory_step_empty
    by (simp split: option.splits prod.splits sum.splits)
qed

theorem fileName_from_url_witness:
  "CHR ''/'' \<notin> set ''Qm123'' \<and>
   resolve_fileName ''http://gw.example/ipfs/Qm123'' [] = ''Qm123'' \<and>
   destination [] (resolve_fileName ''http://gw.example/ipfs/Qm123'' []) = ''Qm123'' \<and>
   parent_dir ''Qm123'' = ''.'' \<and>
   hd (events (DownloadFromUrlToFile example_env example_fs
                 ''http://gw.example/ipfs/Qm123'' [] [] [])) = EvCreate ''Qm123''"
proof -
  have h: "CHR ''/'' \<notin> set ''Qm123''" by simp
  have u: "''http://gw.example/ipfs'' @ ''/'' @ ''Qm123'' = ''http://gw.example/ipfs/Qm123''"
    by simp
  from fileName_from_url [of "''http://gw.example/ipfs/Qm123''" "''Qm123''"
      "''http://gw.example/ipfs''" example_env example_fs "[]", unfolded u] h
  show ?thesis by blast
qed

subsection \<open>A directory argument that names a regular file\<close>

text \<open>
  Claim C5. When \<open>dirName\<close> names something that exists and is a regular file, the
  function returns the error of line 131, the file system is as it was, and the only
  call made is \<^verbatim>\<open>os.Stat\<close>: no file is created or truncated and no request is sent.
\<close>

theorem not_a_directory:
  assumes "os_Stat fs dirName = Some (File b)"
  shows "result (DownloadFromUrlToFile e fs url0 fileName dirName proxyURL)
           = Returns (Some NotADirectoryError)
       \<and> files (DownloadFromUrlToFile e fs url0 fileName dirName proxyURL) = fs
       \<and> events (DownloadFromUrlToFile e fs url0 fileName dirName proxyURL) = [EvStat dirName]"
proof -
  from assms have "dirName \<noteq> []" by (auto simp: os_Stat_def)
  with assms have
    "directory_step fs dirName = (Some (Returns (Some NotADirectoryError)), fs, [EvStat dirName])"
    by (simp add: directory_step_def)
  then show ?thesis by (simp add: DownloadFromUrlToFile_def)
qed

theorem not_a_directory_witness:
  "os_Stat example_fs ''notes'' = Some (File ''old contents'')
   \<and> result (DownloadFromUrlToFile example_env example_fs
               ''http://gw.example/ipfs/Qm123'' [] ''notes'' [])
       = Returns (Some NotADirectoryError)
   \<and> files (DownloadFromUrlToFile example_env example_fs
               ''http://gw.example/ipfs/Qm123'' [] ''notes'' []) = example_fs
   \<and> events (DownloadFromUrlToFile example_env example_fs
               ''http://gw.example/ipfs/Qm123'' [] ''notes'' []) = [EvStat ''notes'']"
proof -
  have h: "os_Stat example_fs ''notes'' = Some (File ''old contents'')"
    by code_simp
  from not_a_directory [OF h] h show ?thesis by blast
qed

subsection \<open>Listing an object without objects\<close>

text \<open>
  Claim C9. When the decoder accepts the body and the decoded \<^verbatim>\<open>Objects\<close> slice is
  empty, \<^verbatim>\<open>ListFromIPFS\<close> returns nothing, neither a result nor an error: the check of
  the decoding error at line 63 lets the call through, and the index at line 66 is out
  of range, so the call panics.
\<close>

theorem list_empty_objects_panics:
  assumes "json_Decode a
             (fst (PostAPICall a (IPFSBaseAPIUrl a @ ''ls?arg='' @ objectHash) objectHash))
           = Some []"
  shows "ListFromIPFS a objectHash = Panics"
  using assms by (simp add: ListFromIPFS_def Let_def case_prod_beta)

theorem list_empty_objects_panics_witness:
  "json_Decode example_api
     (fst (PostAPICall example_api (IPFSBaseAPIUrl example_api @ ''ls?arg='' @ ''QmX'') ''QmX''))
     = Some []
   \<and> ListFromIPFS example_api ''QmX'' = Panics"
proof -
  have h: "json_Decode example_api
     (fst (PostAPICall example_api (IPFSBaseAPIUrl example_api @ ''ls?arg='' @ ''QmX'') ''QmX''))
     = Some []"
    by (simp add: example_api_def)
  from list_empty_objects_panics [OF h] h show ?thesis by simp
qed

subsection \<open>The body that is the daemon's error text\<close>

text \<open>
  Claim C1. When the request of a call succeeds (\<^verbatim>\<open>client.Get\<close> is reached and
  answers a response, and the body is delivered to its end) and the file written at the
  destination holds exactly the sentinel text, the call returns the error of line 206,
  not nil, although the transport reported no error.
\<close>

theorem sentinel_body_is_timeout:
  assumes get: "EvGet t url0 \<in> set (events (DownloadFromUrlToFile e fs url0 fileName dirName proxyURL))"
    and resp: "client_Get e t url0 = Some resp" "complete resp"
    and written: "ioutil_ReadFile (files (DownloadFromUrlToFile e fs url0 fileName dirName proxyURL))
                    (destination dirName (resolve_fileName url0 fileName)) = Some sentinel"
  shows "result (DownloadFromUrlToFile e fs url0 fileName dirName proxyURL)
           = Returns (Some RemoteTimeoutError)"
proof -
  from get obtain fs1 ev1 fs2 h ev2 where
    cr: "os_Create fs1 (destination dirName (resolve_fileName url0 fileName)) = Some (fs2, h)"
    and r: "DownloadFromUrlToFile e fs url0 fileName dirName proxyURL =
      (transfer_step e fs2 t url0 h (destination dirName (resolve_fileName url0 fileName)))
        \<lparr>events := ev1 @ [EvCreate (destination dirName (resolve_fileName url0 fileName))] @ ev2 @
           events (transfer_step e fs2 t url0 h (destination dirName (resolve_fileName url0 fileName)))\<rparr>"
    by (rule get_event_transfer)
  note tc = transfer_complete [OF cr resp]
  from written have "body resp = sentinel"
    by (simp add: r tc)
  then show ?thesis by (simp add: r tc)
qed

theorem sentinel_body_is_timeout_witness:
  "EvGet \<lparr>Proxy = None, Dial = None\<rparr> ''http://gw.example/ipfs/Qm999''
     \<in> set (events (DownloadFromUrlToFile example_env example_fs
                      ''http://gw.example/ipfs/Qm999'' [] ''data'' []))
   \<and> client_Get example_env \<lparr>Proxy = None, Dial = None\<rparr> ''http://gw.example/ipfs/Qm999''
       = Some (Response sentinel True)
   \<and> complete (Response sentinel True)
   \<and> ioutil_ReadFile (files (DownloadFromUrlToFile example_env example_fs
                               ''http://gw.example/ipfs/Qm999'' [] ''data'' []))
        (destination ''data'' (resolve_fileName ''http://gw.example/ipfs/Qm999'' []))
       = Some sentinel
   \<and> result (DownloadFromUrlToFile example_env example_fs
               ''http://gw.example/ipfs/Qm999'' [] ''data'' [])
       = Returns (Some RemoteTimeoutError)"
proof -
  have h1: "EvGet \<lparr>Proxy = None, Dial = None\<rparr> ''http://gw.example/ipfs/Qm999''
     \<in> set (events (DownloadFromUrlToFile example_env example_fs
                      ''http://gw.example/ipfs/Qm999'' [] ''data'' []))"
    by code_simp
  have h2: "client_Get example_env \<lparr>Proxy = None, Dial = None\<rparr> ''http://gw.example/ipfs/Qm999''
       = Some (Response sentinel True)"
    by (simp add: example_env_def)
  have h3: "complete (Response sentinel True)" by simp
  have h4: "ioutil_ReadFile (files (DownloadFromUrlToFile example_env example_fs
                               ''http://gw.example/ipfs/Qm999'' [] ''data'' []))
        (destination ''data'' (resolve_fileName ''http://gw.example/ipfs/Qm999'' []))
       = Some sentinel"
    by code_simp
  from sentinel_body_is_timeout [OF h1 h2 h3 h4] h1 h2 h3 h4 show ?thesis by blast
qed

subsection \<open>Any other body\<close>

text \<open>
  Claim C4. When the request of a call succeeds (\<^verbatim>\<open>client.Get\<close> is reached and
  answers a response, and the body is delivered to its end) and the body is not the
  sentinel text, the call returns nil and the file at the destination holds the body,
  byte for byte.
\<close>

theorem other_body_round_trip:
  assumes get: "EvGet t url0 \<in> set (events (DownloadFromUrlToFile e fs url0 fileName dirName proxyURL))"
    and resp: "client_Get e t url0 = Some resp" "complete resp"
    and other: "body resp \<noteq> sentinel"
  shows "result (DownloadFromUrlToFile e fs url0 fileName dirName proxyURL) = Returns None
       \<and> ioutil_ReadFile (files (DownloadFromUrlToFile e fs url0 fileName dirName proxyURL))
            (destination dirName (resolve_fileName url0 fileName)) = Some (body resp)"
proof -
  from get obtain fs1 ev1 fs2 h ev2 where
    cr: "os_Create fs1 (destination dirName (resolve_fileName url0 fileName)) = Some (fs2, h)"
    and r: "DownloadFromUrlToFile e fs url0 fileName dirName proxyURL =
      (transfer_step e fs2 t url0 h (destination dirName (resolve_fileName url0 fileName)))
        \<lparr>events := ev1 @ [EvCreate (destination dirName (resolve_fileName url0 fileName))] @ ev2 @
           events (transfer_step e fs2 t url0 h (destination dirName (resolve_fileName url0 fileName)))\<rparr>"
    by (rule get_event_transfer)
  note tc = transfer_complete [OF cr resp]
  from other show ?thesis by (simp add: r tc)
qed

theorem other_body_round_trip_witness:
  "EvGet \<lparr>Proxy = None, Dial = None\<rparr> ''http://gw.example/ipfs/Qm123''
     \<in> set (events (DownloadFromUrlToFile example_env example_fs
                      ''http://gw.example/ipfs/Qm123'' [] [] []))
   \<and> client_Get example_env \<lparr>Proxy = None, Dial = None\<rparr> ''http://gw.example/ipfs/Qm123''
       = Some (Response ''hello world'' True)
   \<and> complete (Response ''hello world'' True)
   \<and> body (Response ''hello world'' True) \<noteq> sentinel
   \<and> result (DownloadFromUrlToFile example_env example_fs
               ''http://gw.example/ipfs/Qm123'' [] [] []) = Returns None
   \<and> ioutil_ReadFile (files (DownloadFromUrlToFile example_env example_fs
                               ''http://gw.example/ipfs/Qm123'' [] [] []))
        (destination [] (resolve_fileName ''http://gw.example/ipfs/Qm123'' []))
       = Some ''hello world''"
proof -
  have h1: "EvGet \<lparr>Proxy = None, Dial = None\<rparr> ''http://gw.example/ipfs/Qm123''
     \<in> set (events (DownloadFromUrlToFile example_env example_fs
                      ''http://gw.example/ipfs/Qm123'' [] [] []))"
    by code_simp
  have h2: "client_Get example_env \<lparr>Proxy = None, Dial = None\<rparr> ''http://gw.example/ipfs/Qm123''
       = Some (Response ''hello world'' True)"
    by (simp add: example_env_def)
  have h3: "complete (Response ''hello world'' True)" by simp
  have h4: "body (Response ''hello world'' True) \<noteq> sentinel"
    by (simp add: sentinel_def)
  from other_body_round_trip [OF h1 h2 h3 h4] h1 h2 h3 h4 show ?thesis by simp
qed

subsection \<open>A proxy URL that does not parse\<close>

text \<open>
  Claim C6, as the code has it. With a proxy URL that is not empty and that the parser
  rejects, no call ever sends a request; and a call that got past the directory block
  and the creation of the destination file returns the error of line 165. The parsing
  comes after those two steps, so their failures come first.
\<close>

theorem unparsable_proxy:
  assumes "proxyURL \<noteq> []" and "url_Parse e proxyURL = None"
  shows "(\<forall>t u. EvGet t u \<notin> set (events (DownloadFromUrlToFile e fs url0 fileName dirName proxyURL)))
       \<and> (file_created fs url0 fileName dirName
            \<longrightarrow> result (DownloadFromUrlToFile e fs url0 fileName dirName proxyURL)
                  = Returns (Some InvalidProxyURL))"
proof -
  note bt = build_transport_unparsable [OF assms]
  show ?thesis
  proof (cases rule: run_cases [where e=e and fs=fs and ?url0.0=url0 and fileName=fileName
        and dirName=dirName and proxyURL=proxyURL])
    case (stopped stop fs1 ev1)
    with directory_step_events [OF stopped(1)] show ?thesis
      by (auto simp: file_created_def)
  next
    case (nocreate fs1 ev1)
    with directory_step_events [OF nocreate(1)] show ?thesis
      by (auto simp: file_created_def)
  next
    case (noproxy fs1 ev1 fs2 h err ev2)
    with bt directory_step_events [OF noproxy(1)] show ?thesis by auto
  next
    case (transfer fs1 ev1 fs2 h transport ev2)
    with bt show ?thesis by simp
  qed
qed

theorem unparsable_proxy_witness:
  "''http://bad proxy'' \<noteq> [] \<and> url_Parse example_env ''http://bad proxy'' = None
   \<and> file_created example_fs ''http://gw.example/ipfs/Qm123'' [] ''data''
   \<and> result (DownloadFromUrlToFile example_env example_fs
               ''http://gw.example/ipfs/Qm123'' [] ''data'' ''http://bad proxy'')
       = Returns (Some InvalidProxyURL)"
proof -
  have h1: "''http://bad proxy'' \<noteq> []" by simp
  have h2: "url_Parse example_env ''http://bad proxy'' = None"
    by (simp add: example_env_def)
  have h3: "file_created example_fs ''http://gw.example/ipfs/Qm123'' [] ''data''"
    by code_simp
  from unparsable_proxy [OF h1 h2] h1 h2 h3 show ?thesis by blast
qed

text \<open>
  Claim C6 as it is written, for every call, fails: with the rejected proxy URL
  \<^verbatim>\<open>http://bad proxy\<close> and a \<open>dirName\<close> that names the regular file \<^verbatim>\<open>notes\<close>, the call
  returns the error of line 131 and never parses the proxy URL.
\<close>

theorem unparsable_proxy_counterexample:
  "''http://bad proxy'' \<noteq> [] \<and> url_Parse example_env ''http://bad proxy'' = None
   \<and> result (DownloadFromUrlToFile example_env example_fs
               ''http://gw.example/ipfs/Qm123'' [] ''notes'' ''http://bad proxy'')
       = Returns (Some NotADirectoryError)
   \<and> result (DownloadFromUrlToFile example_env example_fs
               ''http://gw.example/ipfs/Qm123'' [] ''notes'' ''http://bad proxy'')
       \<noteq> Returns (Some InvalidProxyURL)"
proof -
  have "result (DownloadFromUrlToFile example_env example_fs
               ''http://gw.example/ipfs/Qm123'' [] ''notes'' ''http://bad proxy'')
       = Returns (Some NotADirectoryError)"
    by code_simp
  then show ?thesis by (simp add: example_env_def)
qed

subsection \<open>A proxy URL that parses\<close>

text \<open>
  Claim C8. With a proxy URL that is not empty and parses to \<open>u\<close>, the transport built
  is the struct literal of line 167: its proxy function answers \<open>u\<close> for every request
  and its dial function is unset, so \<open>dialTimeout\<close> is not applied. Every request of the
  call carries that transport, and a call that got past the creation of the destination
  file does send its request with it.
\<close>

theorem proxy_transport:
  assumes "proxyURL \<noteq> []" and "url_Parse e proxyURL = Some u"
  shows "build_transport e proxyURL = (Inr \<lparr>Proxy = Some u, Dial = None\<rparr>, [EvParse proxyURL])
       \<and> (\<forall>t url. EvGet t url \<in> set (events (DownloadFromUrlToFile e fs url0 fileName dirName proxyURL))
             \<longrightarrow> Proxy t = Some u \<and> Dial t = None)
       \<and> (file_created fs url0 fileName dirName
             \<longrightarrow> EvGet \<lparr>Proxy = Some u, Dial = None\<rparr> url0
                   \<in> set (events (DownloadFromUrlToFile e fs url0 fileName dirName proxyURL)))"
proof (intro conjI allI impI)
  note bt = build_transport_proxy [OF assms]
  show "build_transport e proxyURL = (Inr \<lparr>Proxy = Some u, Dial = None\<rparr>, [EvParse proxyURL])"
    by (rule bt)
  {
    fix t url
    assume "EvGet t url \<in> set (events (DownloadFromUrlToFile e fs url0 fileName dirName proxyURL))"
    then obtain ev2 where "build_transport e proxyURL = (Inr t, ev2)"
      by (rule get_event_transfer)
    with bt have t: "t = \<lparr>Proxy = Some u, Dial = None\<rparr>" by simp
    from t show "Proxy t = Some u" by simp
    from t show "Dial t = None" by simp
  }
  {
    assume "file_created fs url0 fileName dirName"
    then obtain fs1 ev1 fs2 h where a: "directory_step fs dirName = (None, fs1, ev1)"
      "os_Create fs1 (destination dirName (resolve_fileName url0 fileName)) = Some (fs2, h)"
      by (rule file_created_cases)
    from transfer_step_get_first
    obtain evs where
      "events (transfer_step e fs2 \<lparr>Proxy = Some u, Dial = None\<rparr> url0 h
                 (destination dirName (resolve_fileName url0 fileName)))
         = EvGet \<lparr>Proxy = Some u, Dial = None\<rparr> url0 # evs"
      by blast
    with a bt
    show "EvGet \<lparr>Proxy = Some u, Dial = None\<rparr> url0
            \<in> set (events (DownloadFromUrlToFile e fs url0 fileName dirName proxyURL))"
      by (simp add: DownloadFromUrlToFile_def Let_def)
  }
qed

theorem proxy_transport_witness:
  "''http://proxy:8080'' \<noteq> []
   \<and> url_Parse example_env ''http://proxy:8080'' = Some (URL ''http://proxy:8080'')
   \<and> file_created example_fs ''http://gw.example/ipfs/Qm123'' [] ''data''
   \<and> EvGet \<lparr>Proxy = Some (URL ''http://proxy:8080''), Dial = None\<rparr> ''http://gw.example/ipfs/Qm123''
        \<in> set (events (DownloadFromUrlToFile example_env example_fs
                         ''http://gw.example/ipfs/Qm123'' [] ''data'' ''http://proxy:8080''))
   \<and> Proxy \<lparr>Proxy = Some (URL ''http://proxy:8080''), Dial = None\<rparr> = Some (URL ''http://proxy:8080'')
   \<and> Dial \<lparr>Proxy = Some (URL ''http://proxy:8080''), Dial = None\<rparr> = None"
proof -
  have h1: "''http://proxy:8080'' \<noteq> []" by simp
  have h2: "url_Parse example_env ''http://proxy:8080'' = Some (URL ''http://proxy:8080'')"
    by (simp add: example_env_def)
  have h3: "file_created example_fs ''http://gw.example/ipfs/Qm123'' [] ''data''"
    by code_simp
  note th = proxy_transport [OF h1 h2, of example_fs "''http://gw.example/ipfs/Qm123''" "[]" "''data''"]
  from th h3 have g: "EvGet \<lparr>Proxy = Some (URL ''http://proxy:8080''), Dial = None\<rparr> ''http://gw.example/ipfs/Qm123''
        \<in> set (events (DownloadFromUrlToFile example_env example_fs
                         ''http://gw.example/ipfs/Qm123'' [] ''data'' ''http://proxy:8080''))"
    by blast
  with th h1 h2 h3 show ?thesis by blast
qed

subsection \<open>The direct connection\<close>

lemma direct_request_has_no_dialer:
  assumes "EvGet t u \<in> set (events (DownloadFromUrlToFile e fs url0 fileName dirName []))"
  shows "t = \<lparr>Proxy = None, Dial = None\<rparr>"
proof -
  from assms obtain ev2 where "build_transport e [] = (Inr t, ev2)"
    by (rule get_event_transfer)
  then show ?thesis by (simp add: build_transport_direct)
qed

text \<open>
  Claim C2 says that with an empty proxy URL the request is dialled by \<open>dialTimeout\<close>.
  The code assigns that transport at line 157 and replaces it at line 160 by a struct
  literal that names no dial function: the transport of the direct branch has
  \<open>Dial = None\<close> for every environment, and the request of the example call carries it.
\<close>

theorem direct_transport_without_dialTimeout:
  "build_transport e [] = (Inr \<lparr>Proxy = None, Dial = None\<rparr>, [])
   \<and> events (DownloadFromUrlToFile example_env example_fs ''http://gw.example/ipfs/Qm123'' [] [] [])
       = [EvCreate ''Qm123'',
          EvGet \<lparr>Proxy = None, Dial = None\<rparr> ''http://gw.example/ipfs/Qm123'',
          EvCopy ''Qm123'', EvReadFile ''Qm123'']"
proof
  show "build_transport e [] = (Inr \<lparr>Proxy = None, Dial = None\<rparr>, [])"
    by (rule build_transport_direct)
  show "events (DownloadFromUrlToFile example_env example_fs ''http://gw.example/ipfs/Qm123'' [] [] [])
       = [EvCreate ''Qm123'',
          EvGet \<lparr>Proxy = None, Dial = None\<rparr> ''http://gw.example/ipfs/Qm123'',
          EvCopy ''Qm123'', EvReadFile ''Qm123'']"
    by code_simp
qed

subsection \<open>A directory that is missing\<close>

lemma missing_directory_never_succeeds:
  assumes "dirName \<noteq> []" and "os_Stat fs dirName = None"
  shows "result (DownloadFromUrlToFile e fs url0 fileName dirName proxyURL) = Panics
       \<or> result (DownloadFromUrlToFile e fs url0 fileName dirName proxyURL)
           = Returns (Some DirectoryCreateError)"
proof -
  from assms have
    "\<exists>stop fs1 ev1. directory_step fs dirName = (Some stop, fs1, ev1) \<and>
       (stop = Panics \<or> stop = Returns (Some DirectoryCreateError))"
    by (auto simp: directory_step_def Let_def split: prod.splits)
  then show ?thesis by (auto simp: DownloadFromUrlToFile_def)
qed

text \<open>
  Claim C3 says that a call with a missing directory makes it and goes on to the file.
  The code makes the directory and then calls \<^verbatim>\<open>IsDir\<close> on the nil result of the failed
  \<^verbatim>\<open>os.Stat\<close> (line 130): for the missing directory \<^verbatim>\<open>new/dir\<close> the call panics after
  \<^verbatim>\<open>os.MkdirAll\<close>, with both directories made with mode 0700 and no file in them.
\<close>

theorem missing_directory_panics:
  "os_Stat example_fs ''new/dir'' = None
   \<and> result (DownloadFromUrlToFile example_env example_fs
               ''http://gw.example/ipfs/Qm123'' [] ''new/dir'' []) = Panics
   \<and> events (DownloadFromUrlToFile example_env example_fs
               ''http://gw.example/ipfs/Qm123'' [] ''new/dir'' [])
       = [EvStat ''new/dir'', EvMkdirAll ''new/dir'' 448]
   \<and> files (DownloadFromUrlToFile example_env example_fs
               ''http://gw.example/ipfs/Qm123'' [] ''new/dir'' []) ''new'' = Some (Dir 448)
   \<and> files (DownloadFromUrlToFile example_env example_fs
               ''http://gw.example/ipfs/Qm123'' [] ''new/dir'' []) ''new/dir'' = Some (Dir 448)
   \<and> files (DownloadFromUrlToFile example_env example_fs
               ''http://gw.example/ipfs/Qm123'' [] ''new/dir'' []) ''new/dir/Qm123'' = None"
  by code_simp

subsection \<open>The file is emptied before anything can fail on the network\<close>

text \<open>
  Claim C10. In every call, whatever parses the proxy URL or sends a request comes
  after \<^verbatim>\<open>os.Create\<close> on the destination; and when the call returns the error of the
  proxy parser or of the request, the file at the destination is there and empty,
  whatever it held before.
\<close>

theorem created_before_request:
  "(\<forall>xs x ys.
      events (DownloadFromUrlToFile e fs url0 fileName dirName proxyURL) = xs @ x # ys \<and>
      ((\<exists>p. x = EvParse p) \<or> (\<exists>t u. x = EvGet t u))
      \<longrightarrow> EvCreate (destination dirName (resolve_fileName url0 fileName)) \<in> set xs)
   \<and> (result (DownloadFromUrlToFile e fs url0 fileName dirName proxyURL) = Returns (Some InvalidProxyURL)
         \<or> result (DownloadFromUrlToFile e fs url0 fileName dirName proxyURL) = Returns (Some TransportError)
       \<longrightarrow> ioutil_ReadFile (files (DownloadFromUrlToFile e fs url0 fileName dirName proxyURL))
             (destination dirName (resolve_fileName url0 fileName)) = Some [])"
  using create_precedes [of e fs url0 fileName dirName proxyURL]
    empty_after_failure [of e fs url0 fileName dirName proxyURL]
  by blast

theorem created_before_request_witness:
  "ioutil_ReadFile example_fs ''notes'' = Some ''old contents''
   \<and> events (DownloadFromUrlToFile example_env example_fs ''http://gw.example/ipfs/gone'' ''notes'' [] [])
       = [EvCreate ''notes''] @ EvGet \<lparr>Proxy = None, Dial = None\<rparr> ''http://gw.example/ipfs/gone'' # []
   \<and> result (DownloadFromUrlToFile example_env example_fs ''http://gw.example/ipfs/gone'' ''notes'' [] [])
       = Returns (Some TransportError)
   \<and> EvCreate (destination [] (resolve_fileName ''http://gw.example/ipfs/gone'' ''notes''))
       \<in> set [EvCreate ''notes'']
   \<and> ioutil_ReadFile
        (files (DownloadFromUrlToFile example_env example_fs ''http://gw.example/ipfs/gone'' ''notes'' [] []))
        (destination [] (resolve_fileName ''http://gw.example/ipfs/gone'' ''notes'')) = Some []"
proof -
  have h0: "ioutil_ReadFile example_fs ''notes'' = Some ''old contents''"
    by code_simp
  have h1: "events (DownloadFromUrlToFile example_env example_fs ''http://gw.example/ipfs/gone'' ''notes'' [] [])
       = [EvCreate ''notes''] @ EvGet \<lparr>Proxy = None, Dial = None\<rparr> ''http://gw.example/ipfs/gone'' # []"
    by code_simp
  have h2: "result (DownloadFromUrlToFile example_env example_fs ''http://gw.example/ipfs/gone'' ''notes'' [] [])
       = Returns (Some TransportError)"
    by code_simp
  note th = created_before_request [of example_env example_fs "''http://gw.example/ipfs/gone''"
      "''notes''" "[]" "[]"]
  from th h1 have a: "EvCreate (destination [] (resolve_fileName ''http://gw.example/ipfs/gone'' ''notes''))
       \<in> set [EvCreate ''notes'']"
    by blast
  from th h2 have b: "ioutil_ReadFile
        (files (DownloadFromUrlToFile example_env example_fs ''http://gw.example/ipfs/gone'' ''notes'' [] []))
        (destination [] (resolve_fileName ''http://gw.example/ipfs/gone'' ''notes'')) = Some []"
    by blast
  from h0 h1 h2 a b show ?thesis by blast
qed

end
